theory Spec2Isabelle
  imports Complex_Main "HOL-Library.Multiset"
begin

section \<open>Heat flow through a composite wall: the layer model and its calculator\<close>

text \<open>
  A shallow embedding of \<^verbatim>\<open>heat_flow_calc.py\<close> and \<^verbatim>\<open>material_r_values.py\<close>.

  Conventions of the embedding.
  \<^item> A Python \<^verbatim>\<open>float\<close> is a value of type \<open>pyfloat\<close>: a finite number, one of the two
    infinities, or \<^verbatim>\<open>nan\<close>. The arithmetic is that of IEEE binary64: the exact result
    rounded to the nearest double, a tie going to the even one. Comparisons with
    \<^verbatim>\<open>nan\<close> are false. The two zeros are one value: the program divides and compares,
    and neither tells \<^verbatim>\<open>-0.0\<close> from \<^verbatim>\<open>0.0\<close>.
  \<^item> The built-ins \<^verbatim>\<open>float()\<close> and \<^verbatim>\<open>int()\<close> are parameters \<open>float_of\<close> and
    \<open>int_of\<close> of the functions that call them; \<open>None\<close> stands for the \<^verbatim>\<open>ValueError\<close>
    they raise.
  \<^item> The text found in an entry widget or combobox is an argument of the operation that
    reads it.
  \<^item> An exception that leaves a function is a value of type \<open>exn\<close>; a message box is a
    value of type \<open>message\<close>.
  \<^item> The global list \<^verbatim>\<open>layers\<close> is passed in and handed back.
\<close>

subsection \<open>Floating-point numbers\<close>

datatype pyfloat = Finite real | PInf | NInf | NaN

text \<open>The exponent of a positive number: the \<open>e\<close> with \<open>2^e \<le> x < 2^(e+1)\<close>.\<close>

function ilog2 :: "real \<Rightarrow> int" where
  "ilog2 x = (if x \<le> 0 then 0
              else if 2 \<le> x then ilog2 (x / 2) + 1
              else if x < 1 then ilog2 (x * 2) - 1
              else 0)"
  by pat_completeness auto
termination
proof (relation "measure (\<lambda>x. nat \<bar>\<lfloor>log 2 x\<rfloor>\<bar>)", goal_cases)
  case 1
  show ?case by simp
next
  case (2 x)
  then have "log 2 (x / 2) = log 2 x - 1" by (simp add: log_divide)
  then have e: "\<lfloor>log 2 (x / 2)\<rfloor> = \<lfloor>log 2 x\<rfloor> - 1" by simp
  from 2 have "1 \<le> log 2 x" by (simp add: le_log_iff)
  then have f: "1 \<le> \<lfloor>log 2 x\<rfloor>" by (simp add: le_floor_iff)
  have "nat \<bar>\<lfloor>log 2 (x / 2)\<rfloor>\<bar> < nat \<bar>\<lfloor>log 2 x\<rfloor>\<bar>"
    unfolding e using f by linarith
  then show ?case by simp
next
  case (3 x)
  then have "log 2 (x * 2) = log 2 x + 1" by (simp add: log_mult)
  then have e: "\<lfloor>log 2 (x * 2)\<rfloor> = \<lfloor>log 2 x\<rfloor> + 1" by simp
  from 3 have "log 2 x < 0" by simp
  then have f: "\<lfloor>log 2 x\<rfloor> < 0" by (simp add: floor_less_iff)
  have "nat \<bar>\<lfloor>log 2 (x * 2)\<rfloor>\<bar> < nat \<bar>\<lfloor>log 2 x\<rfloor>\<bar>"
    unfolding e using f by linarith
  then show ?case by simp
qed

declare ilog2.simps [simp del]

definition pow2 :: "int \<Rightarrow> real" where
  "pow2 k = (if 0 \<le> k then 2 ^ nat k else 1 / 2 ^ nat (- k))"

text \<open>Rounding to the nearest integer, a tie going to the even one.\<close>

definition round_half_even :: "real \<Rightarrow> int" where
  "round_half_even x =
     (let f = \<lfloor>x\<rfloor>; d = x - of_int f
      in if d < 1 / 2 then f else if d > 1 / 2 then f + 1 else if even f then f else f + 1)"

text \<open>Rounding a real number to binary64: 53 significant bits, the least exponent -1022
  (below it the spacing stays \<open>2^-1074\<close>), and overflow to an infinity when the rounded
  magnitude reaches \<open>2^1024\<close>.\<close>

definition binary64 :: "real \<Rightarrow> pyfloat" where
  "binary64 x =
     (if x = 0 then Finite 0
      else
        (let e = max (ilog2 \<bar>x\<bar>) (- 1022);
             ulp = pow2 (e - 52);
             y = of_int (round_half_even (x / ulp)) * ulp
         in if pow2 1024 \<le> \<bar>y\<bar> then (if 0 < x then PInf else NInf) else Finite y))"

text \<open>The operators \<^verbatim>\<open>-x\<close>, \<^verbatim>\<open>x + y\<close>, \<^verbatim>\<open>x - y\<close>, \<^verbatim>\<open>x * y\<close> and \<^verbatim>\<open>abs(x)\<close> on floats.\<close>

fun fneg :: "pyfloat \<Rightarrow> pyfloat" where
  "fneg (Finite x) = Finite (- x)"
| "fneg PInf = NInf"
| "fneg NInf = PInf"
| "fneg NaN = NaN"

fun fadd :: "pyfloat \<Rightarrow> pyfloat \<Rightarrow> pyfloat" where
  "fadd NaN y = NaN"
| "fadd x NaN = NaN"
| "fadd PInf NInf = NaN"
| "fadd NInf PInf = NaN"
| "fadd PInf y = PInf"
| "fadd x PInf = PInf"
| "fadd NInf y = NInf"
| "fadd x NInf = NInf"
| "fadd (Finite x) (Finite y) = binary64 (x + y)"

definition fsub :: "pyfloat \<Rightarrow> pyfloat \<Rightarrow> pyfloat" where
  "fsub x y = fadd x (fneg y)"

fun fabs :: "pyfloat \<Rightarrow> pyfloat" where
  "fabs (Finite x) = Finite \<bar>x\<bar>"
| "fabs PInf = PInf"
| "fabs NInf = PInf"
| "fabs NaN = NaN"

text \<open>The sign of a float that is not \<^verbatim>\<open>nan\<close>: -1, 0 or 1.\<close>

fun fsgn :: "pyfloat \<Rightarrow> int" where
  "fsgn (Finite x) = (if x < 0 then - 1 else if x = 0 then 0 else 1)"
| "fsgn PInf = 1"
| "fsgn NInf = - 1"
| "fsgn NaN = 0"

fun fmul :: "pyfloat \<Rightarrow> pyfloat \<Rightarrow> pyfloat" where
  "fmul NaN y = NaN"
| "fmul x NaN = NaN"
| "fmul (Finite x) (Finite y) = binary64 (x * y)"
| "fmul x y =
     (if fsgn x * fsgn y = 0 then NaN else if 0 < fsgn x * fsgn y then PInf else NInf)"

text \<open>\<^verbatim>\<open>x / y\<close> for a divisor that is not zero. A zero divisor raises
  \<^verbatim>\<open>ZeroDivisionError\<close> in Python, whatever the dividend: the functions below test for
  it before they divide.\<close>

fun fdiv :: "pyfloat \<Rightarrow> pyfloat \<Rightarrow> pyfloat" where
  "fdiv NaN y = NaN"
| "fdiv x NaN = NaN"
| "fdiv (Finite x) (Finite y) = (if y = 0 then NaN else binary64 (x / y))"
| "fdiv (Finite x) y = Finite 0"
| "fdiv x (Finite y) =
     (if y = 0 then NaN else if 0 < fsgn x * fsgn (Finite y) then PInf else NInf)"
| "fdiv x y = NaN"

text \<open>The comparisons \<^verbatim>\<open>x <= y\<close> and \<^verbatim>\<open>x > y\<close>: both false when an operand is
  \<^verbatim>\<open>nan\<close>.\<close>

fun fle :: "pyfloat \<Rightarrow> pyfloat \<Rightarrow> bool" where
  "fle NaN y = False"
| "fle x NaN = False"
| "fle NInf y = True"
| "fle x PInf = True"
| "fle PInf y = False"
| "fle x NInf = False"
| "fle (Finite x) (Finite y) = (x \<le> y)"

fun fgt :: "pyfloat \<Rightarrow> pyfloat \<Rightarrow> bool" where
  "fgt NaN y = False"
| "fgt x NaN = False"
| "fgt NInf y = False"
| "fgt x PInf = False"
| "fgt PInf y = True"
| "fgt x NInf = True"
| "fgt (Finite x) (Finite y) = (x > y)"

text \<open>The literal \<^verbatim>\<open>1e-6\<close>.\<close>

definition float_1e_6 :: pyfloat where
  "float_1e_6 = binary64 (1 / 1000000)"

subsection \<open>Data\<close>

text \<open>An entry of \<^verbatim>\<open>layer['paths']\<close>: the dict with keys \<^verbatim>\<open>r_value\<close>,
  \<^verbatim>\<open>area_percent\<close> and \<^verbatim>\<open>material\<close>.\<close>

record path =
  r_value :: pyfloat
  area_percent :: pyfloat
  material :: string

text \<open>An entry of \<^verbatim>\<open>layers\<close>: \<^verbatim>\<open>{'type': 'series', 'r_value': .., 'material': ..}\<close> or
  \<^verbatim>\<open>{'type': 'parallel', 'paths': [..]}\<close>.\<close>

datatype layer =
    Series pyfloat string
  | Parallel "path list"

text \<open>The exceptions that can leave the functions modelled here.\<close>

datatype exn = ZeroDivisionError | TypeError | IndexError

text \<open>The four quantities \<^verbatim>\<open>calculate_heat_transfer\<close> computes and formats into the
  results display.\<close>

record quantities =
  total_resistance :: pyfloat
  u_value :: pyfloat
  q_per_ft2 :: pyfloat
  q_total :: pyfloat

text \<open>What \<^verbatim>\<open>results.set(..)\<close> is called with: the four quantities, or the text
  "Please enter valid numeric values.".\<close>

datatype display =
    Results quantities
  | Please_enter_valid_numeric_values

subsection \<open>The heat-transfer calculation\<close>

text \<open>The inner loop of \<^verbatim>\<open>calculate_heat_transfer\<close>, over \<^verbatim>\<open>layer['paths']\<close>, with the
  running value of \<^verbatim>\<open>parallel_resistance\<close>. Dividing by a zero \<^verbatim>\<open>r_val\<close> raises.\<close>

fun sum_paths :: "path list \<Rightarrow> pyfloat \<Rightarrow> exn + pyfloat" where
  "sum_paths [] parallel_resistance = Inr parallel_resistance"
| "sum_paths (p # ps) parallel_resistance =
     (let r_val = r_value p; area_pct = area_percent p
      in if r_val = Finite 0 then Inl ZeroDivisionError
         else sum_paths ps
                (fadd parallel_resistance (fdiv (fdiv area_pct (Finite 100)) r_val)))"

text \<open>The outer loop, over \<^verbatim>\<open>layers\<close>, with the running value of
  \<^verbatim>\<open>total_resistance\<close> (\<open>tot\<close>). \<^verbatim>\<open>1 / parallel_resistance\<close> raises when the sum is zero.\<close>

fun sum_layers :: "layer list \<Rightarrow> pyfloat \<Rightarrow> exn + pyfloat" where
  "sum_layers [] tot = Inr tot"
| "sum_layers (Series r m # ls) tot = sum_layers ls (fadd tot r)"
| "sum_layers (Parallel ps # ls) tot =
     (case sum_paths ps (Finite 0) of
        Inl e \<Rightarrow> Inl e
      | Inr parallel_resistance \<Rightarrow>
          if parallel_resistance = Finite 0 then Inl ZeroDivisionError
          else sum_layers ls (fadd tot (fdiv (Finite 1) parallel_resistance)))"

text \<open>\<^verbatim>\<open>calculate_heat_transfer\<close>. The five arguments after the parser are the texts of
  the five boundary entries. A \<^verbatim>\<open>ValueError\<close> from \<^verbatim>\<open>float()\<close> is caught and sets the
  display to the invalid-input text; a \<^verbatim>\<open>ZeroDivisionError\<close> is not caught by
  \<^verbatim>\<open>except ValueError\<close> and leaves the function.\<close>

definition calculate_heat_transfer ::
  "(string \<Rightarrow> pyfloat option) \<Rightarrow> string \<Rightarrow> string \<Rightarrow> string \<Rightarrow> string \<Rightarrow> string \<Rightarrow>
   layer list \<Rightarrow> exn + display" where
  "calculate_heat_transfer float_of entry_t_inside entry_t_outside entry_r_inside_film
     entry_r_outside_film entry_wall_area layers =
   (case float_of entry_t_inside of None \<Rightarrow> Inr Please_enter_valid_numeric_values
    | Some t_inside \<Rightarrow>
   (case float_of entry_t_outside of None \<Rightarrow> Inr Please_enter_valid_numeric_values
    | Some t_outside \<Rightarrow>
   (case float_of entry_r_inside_film of None \<Rightarrow> Inr Please_enter_valid_numeric_values
    | Some r_inside_film \<Rightarrow>
   (case float_of entry_r_outside_film of None \<Rightarrow> Inr Please_enter_valid_numeric_values
    | Some r_outside_film \<Rightarrow>
   (case float_of entry_wall_area of None \<Rightarrow> Inr Please_enter_valid_numeric_values
    | Some wall_area \<Rightarrow>
   (case sum_layers layers (fadd r_inside_film r_outside_film) of
      Inl e \<Rightarrow> Inl e
    | Inr tot \<Rightarrow>
        if tot = Finite 0 then Inl ZeroDivisionError
        else
          (let q_per_ft2' = fdiv (fsub t_outside t_inside) tot;
               q_total' = fmul q_per_ft2' wall_area;
               u_value' = fdiv (Finite 1) tot
           in Inr (Results \<lparr>total_resistance = tot, u_value = u_value',
                            q_per_ft2 = q_per_ft2', q_total = q_total'\<rparr>))))))))"

subsection \<open>The material table\<close>

text \<open>The dict \<^verbatim>\<open>materials_r_values\<close> of \<^verbatim>\<open>material_r_values.py\<close>, in its order. Each
  value is the double its literal denotes.\<close>

definition materials_table :: "(string \<times> pyfloat) list" where
  "materials_table =
    [(''1/2-inch Drywall (R=0.45)'', binary64 0.45),
     (''5/8-inch Drywall (R=0.56)'', binary64 0.56),
     (''1/2-inch Plywood (R=0.63)'', binary64 0.63),
     (''3/4-inch Plywood (R=0.94)'', binary64 0.94),
     (''1/2-inch OSB (R=0.50)'', binary64 0.50),
     (''3/4-inch Solid Wood (Pine) (R=0.81)'', binary64 0.81),
     (''1-inch Solid Wood (Pine) (R=1.25)'', binary64 1.25),
     (''1/2-inch Cement Board (R=0.20)'', binary64 0.20),
     (''8-inch Concrete Block (unfilled) (R=1.11)'', binary64 1.11),
     (''8-inch Concrete Block (foam filled) (R=2.00)'', binary64 2.00),
     (''8-inch Reinforced Concrete (R=1.20)'', binary64 1.20),
     (''3.5-inch Fiberglass Batt (R=13.00)'', binary64 13.00),
     (''6-inch Fiberglass Batt (R=19.00)'', binary64 19.00),
     (''8-inch Fiberglass Batt (R=25.00)'', binary64 25.00),
     (''8-inch Cellulose (Loose-Fill) (R=24.00)'', binary64 24.00),
     (''1-inch Extruded Polystyrene (XPS) (R=5.00)'', binary64 5.00),
     (''2-inch Extruded Polystyrene (XPS) (R=10.00)'', binary64 10.00),
     (''1-inch Expanded Polystyrene (EPS) (R=4.00)'', binary64 4.00),
     (''2-inch Expanded Polystyrene (EPS) (R=8.00)'', binary64 8.00),
     (''1-inch Polyiso Foam Board (R=6.50)'', binary64 6.50),
     (''2-inch Polyiso Foam Board (R=13.00)'', binary64 13.00)]"

definition materials_r_values :: "string \<rightharpoonup> pyfloat" where
  "materials_r_values = map_of materials_table"

subsection \<open>Strings, messages and outcomes\<close>

text \<open>\<^verbatim>\<open>str.strip()\<close> on ASCII text: the characters \<^verbatim>\<open>str.isspace\<close> accepts below 128
  are removed from both ends.\<close>

definition isspace :: "char \<Rightarrow> bool" where
  "isspace c = (c \<in> set [CHR 0x09, CHR 0x0A, CHR 0x0B, CHR 0x0C, CHR 0x0D,
                          CHR 0x1C, CHR 0x1D, CHR 0x1E, CHR 0x1F, CHR '' ''])"

definition strip :: "string \<Rightarrow> string" where
  "strip s = rev (dropWhile isspace (rev (dropWhile isspace s)))"

text \<open>The number a format specification \<^verbatim>\<open>:.2f\<close> prints: a finite argument rounded to two
  decimals, a tie going to the even neighbour; \<^verbatim>\<open>inf\<close>, \<^verbatim>\<open>-inf\<close> and \<^verbatim>\<open>nan\<close> print as
  themselves.\<close>

fun format_2f :: "pyfloat \<Rightarrow> pyfloat" where
  "format_2f (Finite x) = Finite (of_int (round_half_even (x * 100)) / 100)"
| "format_2f x = x"

text \<open>The message boxes of the program, one constructor for each text. A number in a
  message is the number its \<^verbatim>\<open>:.2f\<close> field prints.
  \<^item> \<open>Please_enter_a_positive_numeric_R_value\<close>: \<^verbatim>\<open>showerror\<close>, titled "Input Error" in
    \<^verbatim>\<open>add_series_layer\<close> and "R-value Error" in \<^verbatim>\<open>on_ok\<close>.
  \<^item> \<open>Please_type_an_R_value_or_select_a_material\<close>: \<^verbatim>\<open>showerror\<close>, "Input Error".
  \<^item> \<open>Please_enter_a_valid_positive_integer\<close>: \<^verbatim>\<open>showerror\<close>, "Input Error", "Please
    enter a valid positive integer for # of parallel paths."
  \<^item> \<open>Please_enter_a_positive_area_percent\<close>: \<^verbatim>\<open>showerror\<close>, "Area Error".
  \<^item> \<open>This_paths_area_exceeds_the_remaining a l\<close>: \<^verbatim>\<open>showerror\<close>, "Area Error", "This
    path's area \<open>a\<close>% exceeds the remaining \<open>l\<close>%. Please re-enter."
  \<^item> \<open>Last_path_must_use_exactly l a\<close>: \<^verbatim>\<open>showerror\<close>, "Area Error", "Last path must
    use exactly \<open>l\<close>%. You entered \<open>a\<close>%. Please re-enter."
  \<^item> \<open>The_total_area_is t\<close>: \<^verbatim>\<open>showerror\<close>, "Area Error", "The total area for all
    parallel paths is \<open>t\<close>%. It must sum to exactly 100%. Please re-enter."
  \<^item> \<open>No_layers_to_delete\<close>: \<^verbatim>\<open>showinfo\<close>, "No Layers".
\<close>

datatype message =
    Please_enter_a_positive_numeric_R_value
  | Please_type_an_R_value_or_select_a_material
  | Please_enter_a_valid_positive_integer
  | Please_enter_a_positive_area_percent
  | This_paths_area_exceeds_the_remaining pyfloat pyfloat
  | Last_path_must_use_exactly pyfloat pyfloat
  | The_total_area_is pyfloat
  | No_layers_to_delete

text \<open>What an operation on the layer list leaves behind: the message boxes it showed, the
  exception that left it (if any) before it could change the list, the list
  \<^verbatim>\<open>layers\<close> afterwards, and whether it went on to call \<^verbatim>\<open>draw_layers()\<close> and
  \<^verbatim>\<open>calculate_heat_transfer()\<close>, neither of which touches \<^verbatim>\<open>layers\<close>.\<close>

record outcome =
  shown :: "message list"
  raised :: "exn option"
  new_layers :: "layer list"
  redrawn :: bool

subsection \<open>Adding a series layer\<close>

text \<open>\<^verbatim>\<open>add_series_layer\<close>, reading the entry \<^verbatim>\<open>entry_r_value\<close> and the combobox
  \<^verbatim>\<open>combo_material\<close>.\<close>

definition add_series_layer ::
  "(string \<Rightarrow> pyfloat option) \<Rightarrow> string \<Rightarrow> string \<Rightarrow> layer list \<Rightarrow> outcome" where
  "add_series_layer float_of entry_r_value combo_material layers =
   (let typed_str = strip entry_r_value;
        selected_mat = strip combo_material;
        input_error = (\<lambda>m. \<lparr>shown = [m], raised = None, new_layers = layers, redrawn = False\<rparr>);
        append = (\<lambda>r_value' material'.
          \<lparr>shown = [], raised = None,
           new_layers = layers @ [Series r_value' material'], redrawn = True\<rparr>)
    in if typed_str \<noteq> [] then
         (case float_of typed_str of
            None \<Rightarrow> input_error Please_enter_a_positive_numeric_R_value
          | Some val \<Rightarrow>
              if fle val (Finite 0) then input_error Please_enter_a_positive_numeric_R_value
              else append val ''Custom R-value'')
       else if selected_mat \<noteq> ''None'' \<and> materials_r_values selected_mat \<noteq> None then
         append (the (materials_r_values selected_mat)) selected_mat
       else input_error Please_type_an_R_value_or_select_a_material)"

subsection \<open>Adding a parallel layer\<close>

text \<open>What the three widgets of the path dialog hold when OK is pressed.\<close>

record submission =
  ent_r :: string
  combo_r :: string
  ent_a :: string

text \<open>\<^verbatim>\<open>on_ok\<close>, the OK button of the dialog \<^verbatim>\<open>prompt_parallel_path\<close> opens, with the
  \<^verbatim>\<open>area_left\<close> and \<^verbatim>\<open>last_path\<close> of the enclosing call. \<open>Inl\<close>: a message box is
  shown and the dialog stays open. \<open>Inr\<close>: \<^verbatim>\<open>result\<close> is filled with the R-value, the
  area and the material name, and the dialog is closed.\<close>

definition on_ok ::
  "(string \<Rightarrow> pyfloat option) \<Rightarrow> pyfloat \<Rightarrow> bool \<Rightarrow> submission \<Rightarrow>
   message + pyfloat \<times> pyfloat \<times> string" where
  "on_ok float_of area_left last_path w =
   (let typed_str = strip (ent_r w);
        sel_mat = strip (combo_r w);
        area = (\<lambda>rv material_name.
          (case float_of (strip (ent_a w)) of
             None \<Rightarrow> Inl Please_enter_a_positive_area_percent
           | Some a_val \<Rightarrow>
               if fle a_val (Finite 0) then Inl Please_enter_a_positive_area_percent
               else if \<not> last_path then
                 (if fgt a_val area_left then
                    Inl (This_paths_area_exceeds_the_remaining
                           (format_2f a_val) (format_2f area_left))
                  else Inr (rv, a_val, material_name))
               else
                 (if fgt (fabs (fsub a_val area_left)) float_1e_6 then
                    Inl (Last_path_must_use_exactly (format_2f area_left) (format_2f a_val))
                  else Inr (rv, a_val, material_name))))
    in if typed_str \<noteq> [] then
         (case float_of typed_str of
            None \<Rightarrow> Inl Please_enter_a_positive_numeric_R_value
          | Some rv \<Rightarrow>
              if fle rv (Finite 0) then Inl Please_enter_a_positive_numeric_R_value
              else area rv ''Custom R-value'')
       else if sel_mat \<noteq> ''None'' \<and> materials_r_values sel_mat \<noteq> None then
         area (the (materials_r_values sel_mat)) sel_mat
       else Inl Please_type_an_R_value_or_select_a_material)"

text \<open>\<^verbatim>\<open>prompt_parallel_path\<close>: the modal dialog for one path. Its last argument is what
  the user does with it: the submissions of the successive presses of OK, after which
  the window is closed. The dialog ends at the first submission \<^verbatim>\<open>on_ok\<close> accepts; if
  there is none, \<^verbatim>\<open>result\<close> still holds \<^verbatim>\<open>None\<close> for the R-value and the area, which is
  the \<open>None\<close> returned here. (\<^verbatim>\<open>path_index\<close> and \<^verbatim>\<open>total_paths\<close> only appear in the
  window title and the label.)\<close>

fun prompt_parallel_path ::
  "(string \<Rightarrow> pyfloat option) \<Rightarrow> pyfloat \<Rightarrow> bool \<Rightarrow> submission list \<Rightarrow>
   message list \<times> (pyfloat \<times> pyfloat \<times> string) option" where
  "prompt_parallel_path float_of area_used_so_far last_path [] = ([], None)"
| "prompt_parallel_path float_of area_used_so_far last_path (w # ws) =
     (let area_left = fsub (Finite 100) area_used_so_far
      in case on_ok float_of area_left last_path w of
           Inl m \<Rightarrow>
             (case prompt_parallel_path float_of area_used_so_far last_path ws of
                (ms, result) \<Rightarrow> (m # ms, result))
         | Inr result \<Rightarrow> ([], Some result))"

text \<open>The loop \<^verbatim>\<open>for i in range(num_paths)\<close> of \<^verbatim>\<open>add_parallel_layer\<close>, from \<open>i\<close> on,
  with the local variables \<^verbatim>\<open>paths\<close> and \<^verbatim>\<open>total_area_used\<close>; \<open>dialogs i\<close> is what the
  user does with the dialog of path \<open>i + 1\<close>. When a dialog was closed without a valid
  submission, \<^verbatim>\<open>total_area_used += area_val\<close> adds \<^verbatim>\<open>None\<close> to a float and raises
  \<^verbatim>\<open>TypeError\<close>.\<close>

function add_parallel_layer_loop ::
  "(string \<Rightarrow> pyfloat option) \<Rightarrow> (nat \<Rightarrow> submission list) \<Rightarrow> nat \<Rightarrow> nat \<Rightarrow> path list \<Rightarrow>
   pyfloat \<Rightarrow> message list \<times> (exn + path list \<times> pyfloat)" where
  "add_parallel_layer_loop float_of dialogs num_paths i paths total_area_used =
     (if i < num_paths then
        (let is_last_path = (i = num_paths - 1)
         in case prompt_parallel_path float_of total_area_used is_last_path (dialogs i) of
              (ms, None) \<Rightarrow> (ms, Inl TypeError)
            | (ms, Some (r_val, area_val, material')) \<Rightarrow>
                (case add_parallel_layer_loop float_of dialogs num_paths (i + 1)
                        (paths @ [\<lparr>r_value = r_val, area_percent = area_val,
                                   material = material'\<rparr>])
                        (fadd total_area_used area_val) of
                   (ms', r) \<Rightarrow> (ms @ ms', r)))
      else ([], Inr (paths, total_area_used)))"
  by pat_completeness auto
termination
  by (relation "measure (\<lambda>(float_of, dialogs, num_paths, i, paths, total_area_used).
        num_paths - i)") auto

declare add_parallel_layer_loop.simps [simp del]

text \<open>\<^verbatim>\<open>add_parallel_layer\<close>, reading the entry \<^verbatim>\<open>entry_num_paths\<close>.\<close>

definition add_parallel_layer ::
  "(string \<Rightarrow> pyfloat option) \<Rightarrow> (string \<Rightarrow> int option) \<Rightarrow> string \<Rightarrow>
   (nat \<Rightarrow> submission list) \<Rightarrow> layer list \<Rightarrow> outcome" where
  "add_parallel_layer float_of int_of entry_num_paths dialogs layers =
   (let input_error = \<lparr>shown = [Please_enter_a_valid_positive_integer], raised = None,
                       new_layers = layers, redrawn = False\<rparr>
    in case int_of entry_num_paths of
         None \<Rightarrow> input_error
       | Some num_paths \<Rightarrow>
           if num_paths \<le> 0 then input_error
           else
             (case add_parallel_layer_loop float_of dialogs (nat num_paths) 0 [] (Finite 0) of
                (ms, Inl e) \<Rightarrow>
                  \<lparr>shown = ms, raised = Some e, new_layers = layers, redrawn = False\<rparr>
              | (ms, Inr (paths, total_area_used)) \<Rightarrow>
                  if fgt (fabs (fsub total_area_used (Finite 100))) float_1e_6 then
                    \<lparr>shown = ms @ [The_total_area_is (format_2f total_area_used)],
                     raised = None, new_layers = layers, redrawn = False\<rparr>
                  else
                    \<lparr>shown = ms, raised = None,
                     new_layers = layers @ [Parallel paths], redrawn = True\<rparr>))"

subsection \<open>Removing layers\<close>

text \<open>\<^verbatim>\<open>delete_last_layer\<close>: \<^verbatim>\<open>layers.pop()\<close> when the list is not empty.\<close>

definition delete_last_layer :: "layer list \<Rightarrow> outcome" where
  "delete_last_layer layers =
   (if layers \<noteq> [] then
      \<lparr>shown = [], raised = None, new_layers = butlast layers, redrawn = True\<rparr>
    else
      \<lparr>shown = [No_layers_to_delete], raised = None, new_layers = layers, redrawn = False\<rparr>)"

text \<open>\<^verbatim>\<open>confirm_delete_layer\<close>; \<open>response\<close> is the answer to \<^verbatim>\<open>askyesno\<close>.
  \<^verbatim>\<open>del layers[index]\<close> follows Python's indexing: a negative index counts from the end,
  and an index outside \<open>-len \<le> index < len\<close> raises \<^verbatim>\<open>IndexError\<close>.\<close>

definition confirm_delete_layer :: "int \<Rightarrow> bool \<Rightarrow> layer list \<Rightarrow> outcome" where
  "confirm_delete_layer index response layers =
   (if response then
      (let n = int (length layers);
           j = (if index < 0 then index + n else index)
       in if 0 \<le> j \<and> j < n then
            \<lparr>shown = [], raised = None,
             new_layers = take (nat j) layers @ drop (Suc (nat j)) layers, redrawn = True\<rparr>
          else
            \<lparr>shown = [], raised = Some IndexError, new_layers = layers, redrawn = False\<rparr>)
    else \<lparr>shown = [], raised = None, new_layers = layers, redrawn = False\<rparr>)"

subsection \<open>The reachable layer lists\<close>

text \<open>The list starts empty (\<^verbatim>\<open>layers = []\<close>) and is only changed by the four operations
  above.\<close>

inductive reachable ::
  "(string \<Rightarrow> pyfloat option) \<Rightarrow> (string \<Rightarrow> int option) \<Rightarrow> layer list \<Rightarrow> bool"
  for float_of :: "string \<Rightarrow> pyfloat option" and int_of :: "string \<Rightarrow> int option" where
  start: "reachable float_of int_of []"
| series: "reachable float_of int_of layers \<Longrightarrow>
    reachable float_of int_of
      (new_layers (add_series_layer float_of entry_r_value combo_material layers))"
| parallel: "reachable float_of int_of layers \<Longrightarrow>
    reachable float_of int_of
      (new_layers (add_parallel_layer float_of int_of entry_num_paths dialogs layers))"
| delete_last: "reachable float_of int_of layers \<Longrightarrow>
    reachable float_of int_of (new_layers (delete_last_layer layers))"
| confirm_delete: "reachable float_of int_of layers \<Longrightarrow>
    reachable float_of int_of (new_layers (confirm_delete_layer index response layers))"

subsection \<open>Parsers for concrete runs\<close>

text \<open>Plain decimal numerals, \<^verbatim>\<open>-\<close>\<open>?\<close> digits (\<^verbatim>\<open>.\<close> digits)\<open>?\<close>, and the texts
  \<^verbatim>\<open>nan\<close>, \<^verbatim>\<open>inf\<close> and \<^verbatim>\<open>-inf\<close>. Python's \<^verbatim>\<open>float()\<close> accepts each of them and gives
  the double nearest to the numeral, and \<^verbatim>\<open>int()\<close> accepts each numeral without a
  fraction; they instantiate \<open>float_of\<close> and \<open>int_of\<close> where a run of the program is
  evaluated.\<close>

definition isdigit :: "char \<Rightarrow> bool" where
  "isdigit c = (c \<in> set ''0123456789'')"

definition digits_value :: "string \<Rightarrow> nat" where
  "digits_value ds = foldl (\<lambda>n c. 10 * n + (of_char c - 48)) 0 ds"

definition unsigned_decimal :: "string \<Rightarrow> real option" where
  "unsigned_decimal s =
     (let ip = takeWhile isdigit s; rest = dropWhile isdigit s
      in if ip = [] then None
         else (case rest of
                 [] \<Rightarrow> Some (real (digits_value ip))
               | c # fp \<Rightarrow>
                   if c = CHR ''.'' \<and> fp \<noteq> [] \<and> list_all isdigit fp then
                     Some (real (digits_value ip) + real (digits_value fp) / 10 ^ length fp)
                   else None))"

definition float_of_decimal :: "string \<Rightarrow> pyfloat option" where
  "float_of_decimal s =
     (if s = ''nan'' then Some NaN
      else if s = ''inf'' then Some PInf
      else if s = ''-inf'' then Some NInf
      else (case s of
              [] \<Rightarrow> None
            | c # t \<Rightarrow>
                if c = CHR ''-'' then map_option (\<lambda>x. binary64 (- x)) (unsigned_decimal t)
                else map_option binary64 (unsigned_decimal s)))"

definition int_of_decimal :: "string \<Rightarrow> int option" where
  "int_of_decimal s =
     (case s of
        [] \<Rightarrow> None
      | c # t \<Rightarrow>
          if c = CHR ''-'' then
            (if t \<noteq> [] \<and> list_all isdigit t then Some (- int (digits_value t)) else None)
          else (if list_all isdigit s then Some (int (digits_value s)) else None))"

subsection \<open>What the guards keep out\<close>

text \<open>No R-value stored in the layer is \<^verbatim>\<open><= 0\<close>, which is the test the two add
  operations make on a typed value.\<close>

fun guarded :: "layer \<Rightarrow> bool" where
  "guarded (Series r m) = (\<not> fle r (Finite 0))"
| "guarded (Parallel ps) = (\<forall>p \<in> set ps. \<not> fle (r_value p) (Finite 0))"

subsection \<open>The resistance formula as the specification words it\<close>

text \<open>\<open>\<Sigma>_paths (path.areaPercent / 100) / path.rValue\<close>, the paths taken in their order
  and the sum started at 0.\<close>

definition parallelConductance :: "path list \<Rightarrow> pyfloat" where
  "parallelConductance ps =
     foldl (\<lambda>s p. fadd s (fdiv (fdiv (area_percent p) (Finite 100)) (r_value p))) (Finite 0) ps"

text \<open>What one layer adds: its \<open>rValue\<close> if series, \<open>1 / parallelConductance\<close> if
  parallel.\<close>

fun layerResistance :: "layer \<Rightarrow> pyfloat" where
  "layerResistance (Series r m) = r"
| "layerResistance (Parallel ps) = fdiv (Finite 1) (parallelConductance ps)"

text \<open>\<open>filmIn + filmOut\<close>, plus what each layer adds, the layers taken in their order.\<close>

definition totalResistance :: "pyfloat \<Rightarrow> pyfloat \<Rightarrow> layer list \<Rightarrow> pyfloat" where
  "totalResistance filmIn filmOut ls =
     foldl (\<lambda>r l. fadd r (layerResistance l)) (fadd filmIn filmOut) ls"

text \<open>No division of the two loops meets a zero divisor on this layer.\<close>

fun divides :: "layer \<Rightarrow> bool" where
  "divides (Series r m) = True"
| "divides (Parallel ps) =
     ((\<forall>p \<in> set ps. r_value p \<noteq> Finite 0) \<and> parallelConductance ps \<noteq> Finite 0)"



section \<open>Properties\<close>

subsection \<open>Evaluating concrete runs\<close>

lemmas b64_simps = binary64_def ilog2.simps round_half_even_def Let_def pow2_def

lemmas parse_simps =
  float_of_decimal_def unsigned_decimal_def int_of_decimal_def isdigit_def digits_value_def
  b64_simps

lemmas run_simps = add_parallel_layer_def add_parallel_layer_loop.simps on_ok_def
  add_series_layer_def fsub_def float_1e_6_def
  strip_def isspace_def materials_r_values_def materials_table_def parse_simps

lemma float_of_decimal_70: "float_of_decimal ''70'' = Some (Finite 70)"
  by (simp add: parse_simps)

lemma float_of_decimal_20: "float_of_decimal ''20'' = Some (Finite 20)"
  by (simp add: parse_simps)

lemma float_of_decimal_05: "float_of_decimal ''0.5'' = Some (Finite 0.5)"
  by (simp add: parse_simps)

lemma float_of_decimal_025: "float_of_decimal ''0.25'' = Some (Finite 0.25)"
  by (simp add: parse_simps)

lemma float_of_decimal_100: "float_of_decimal ''100'' = Some (Finite 100)"
  by (simp add: parse_simps)

text \<open>The model's rounding gives the doubles Python prints for the literals \<^verbatim>\<open>0.45\<close> and
  \<^verbatim>\<open>1e-6\<close> (\<^verbatim>\<open>float.as_integer_ratio\<close>).\<close>

lemma binary64_045: "binary64 0.45 = Finite (8106479329266893 / 2 ^ 54)"
  by (simp add: b64_simps)

lemma float_1e_6_value: "float_1e_6 = Finite (4722366482869645 / 2 ^ 72)"
  by (simp add: float_1e_6_def b64_simps)

subsection \<open>Floats\<close>

lemma binary64_not_NaN: "binary64 x \<noteq> NaN"
  by (simp add: binary64_def Let_def)


lemma fle_iff_not_fgt: "x \<noteq> NaN \<Longrightarrow> y \<noteq> NaN \<Longrightarrow> fle x y \<longleftrightarrow> \<not> fgt x y"
  by (cases x; cases y) auto

lemma fgt_imp_not_fle: "fgt x y \<Longrightarrow> \<not> fle x y"
  by (cases x; cases y) auto

lemma fabs_not_NaN: "x \<noteq> NaN \<Longrightarrow> fabs x \<noteq> NaN"
  by (cases x) simp_all

lemma fsub_Finite_not_NaN: "x \<noteq> NaN \<Longrightarrow> fsub x (Finite y) \<noteq> NaN"
  by (cases x) (simp_all add: fsub_def binary64_not_NaN)

subsection \<open>The two loops compute the formula\<close>

lemma sum_paths_eq:
  "sum_paths ps acc =
     (if \<forall>p \<in> set ps. r_value p \<noteq> Finite 0 then
        Inr (foldl (\<lambda>s p. fadd s (fdiv (fdiv (area_percent p) (Finite 100)) (r_value p)))
               acc ps)
      else Inl ZeroDivisionError)"
  by (induction ps arbitrary: acc) (auto simp: Let_def)

lemma sum_layers_eq:
  "sum_layers ls tot =
     (if \<forall>l \<in> set ls. divides l then
        Inr (foldl (\<lambda>r l. fadd r (layerResistance l)) tot ls)
      else Inl ZeroDivisionError)"
proof (induction ls arbitrary: tot)
  case Nil
  show ?case by simp
next
  case (Cons l ls)
  show ?case
  proof (cases l)
    case (Series r m)
    with Cons show ?thesis by simp
  next
    case (Parallel ps)
    with Cons show ?thesis by (simp add: sum_paths_eq parallelConductance_def)
  qed
qed

lemma calculate_heat_transfer_Some:
  assumes "float_of entry_t_inside = Some t_inside"
      and "float_of entry_t_outside = Some t_outside"
      and "float_of entry_r_inside_film = Some r_inside_film"
      and "float_of entry_r_outside_film = Some r_outside_film"
      and "float_of entry_wall_area = Some wall_area"
  shows "calculate_heat_transfer float_of entry_t_inside entry_t_outside entry_r_inside_film
           entry_r_outside_film entry_wall_area layers =
         (case sum_layers layers (fadd r_inside_film r_outside_film) of
            Inl e \<Rightarrow> Inl e
          | Inr tot \<Rightarrow>
              if tot = Finite 0 then Inl ZeroDivisionError
              else Inr (Results \<lparr>total_resistance = tot, u_value = fdiv (Finite 1) tot,
                     q_per_ft2 = fdiv (fsub t_outside t_inside) tot,
                     q_total = fmul (fdiv (fsub t_outside t_inside) tot) wall_area\<rparr>))"
  using assms by (simp add: calculate_heat_transfer_def Let_def split: sum.splits)

subsection \<open>Total resistance\<close>

text \<open>
  C1, as the code has it. Let the five boundary entries parse as numbers, let no path of
  the assembly have an R-value of zero and no parallel layer a conductance sum of zero,
  and let \<open>filmIn + filmOut\<close> plus the layers' resistances be nonzero. Then
  \<^verbatim>\<open>calculate_heat_transfer\<close> produces its results, and the total resistance among them is
  \<open>filmIn + filmOut\<close> plus, for each layer in order, its \<open>rValue\<close> if it is a series layer
  and \<open>1 / \<Sigma> (areaPercent / 100) / rValue\<close> over its paths if it is a parallel layer.
\<close>

theorem calculate_heat_transfer_total:
  assumes "float_of entry_t_inside = Some t_inside"
      and "float_of entry_t_outside = Some t_outside"
      and "float_of entry_r_inside_film = Some r_inside_film"
      and "float_of entry_r_outside_film = Some r_outside_film"
      and "float_of entry_wall_area = Some wall_area"
      and "\<forall>l \<in> set layers. divides l"
      and "totalResistance r_inside_film r_outside_film layers \<noteq> Finite 0"
  shows "\<exists>q. calculate_heat_transfer float_of entry_t_inside entry_t_outside
                entry_r_inside_film entry_r_outside_film entry_wall_area layers
              = Inr (Results q)
            \<and> total_resistance q = totalResistance r_inside_film r_outside_film layers"
  using assms(6,7)
  by (simp add: calculate_heat_transfer_Some [OF assms(1-5)] sum_layers_eq totalResistance_def)

text \<open>Films 0.5 and 0.25, one parallel layer of R 1 on 25% and R 3 on 75%: each path
  conducts 0.25, the layer resists 2, and the total is 2.75.\<close>

theorem calculate_heat_transfer_total_witness:
  "(\<exists>q. calculate_heat_transfer float_of_decimal ''70'' ''20'' ''0.5'' ''0.25'' ''100''
          [Parallel [\<lparr>r_value = Finite 1, area_percent = Finite 25,
                      material = ''Custom R-value''\<rparr>,
                     \<lparr>r_value = Finite 3, area_percent = Finite 75,
                      material = ''Custom R-value''\<rparr>]]
        = Inr (Results q)
      \<and> total_resistance q = totalResistance (Finite 0.5) (Finite 0.25)
          [Parallel [\<lparr>r_value = Finite 1, area_percent = Finite 25,
                      material = ''Custom R-value''\<rparr>,
                     \<lparr>r_value = Finite 3, area_percent = Finite 75,
                      material = ''Custom R-value''\<rparr>]])
   \<and> totalResistance (Finite 0.5) (Finite 0.25)
          [Parallel [\<lparr>r_value = Finite 1, area_percent = Finite 25,
                      material = ''Custom R-value''\<rparr>,
                     \<lparr>r_value = Finite 3, area_percent = Finite 75,
                      material = ''Custom R-value''\<rparr>]]
       = Finite 2.75"
proof -
  let ?L = "[Parallel [\<lparr>r_value = Finite 1, area_percent = Finite 25,
                      material = ''Custom R-value''\<rparr>,
                     \<lparr>r_value = Finite 3, area_percent = Finite 75,
                      material = ''Custom R-value''\<rparr>]]"
  have c: "parallelConductance
             [\<lparr>r_value = Finite 1, area_percent = Finite 25, material = ''Custom R-value''\<rparr>,
              \<lparr>r_value = Finite 3, area_percent = Finite 75, material = ''Custom R-value''\<rparr>]
           = Finite 0.5"
    by (simp add: parallelConductance_def b64_simps)
  have v: "totalResistance (Finite 0.5) (Finite 0.25) ?L = Finite 2.75"
    by (simp add: totalResistance_def c) (simp add: b64_simps)
  have d: "\<forall>l \<in> set ?L. divides l" by (simp add: c)
  have n: "totalResistance (Finite 0.5) (Finite 0.25) ?L \<noteq> Finite 0" unfolding v by simp
  from calculate_heat_transfer_total [OF float_of_decimal_70 float_of_decimal_20
      float_of_decimal_05 float_of_decimal_025 float_of_decimal_100 d n] v
  show ?thesis by blast
qed

text \<open>C1 as it is stated fails where the total is zero: with both film entries "0" and no
  layer, every entry parses and the formula gives 0, but the division by the total raises
  \<^verbatim>\<open>ZeroDivisionError\<close> and no total is produced.\<close>

theorem zero_total_resistance_counterexample:
  "float_of_decimal ''68'' = Some (Finite 68) \<and> float_of_decimal ''72'' = Some (Finite 72)
   \<and> float_of_decimal ''0'' = Some (Finite 0) \<and> float_of_decimal ''120'' = Some (Finite 120)
   \<and> totalResistance (Finite 0) (Finite 0) [] = Finite 0
   \<and> calculate_heat_transfer float_of_decimal ''68'' ''72'' ''0'' ''0'' ''120'' []
       = Inl ZeroDivisionError"
  by (simp add: calculate_heat_transfer_def totalResistance_def parse_simps)

subsection \<open>The derived quantities\<close>

text \<open>
  C2. Let the five boundary entries parse and let the loop over the layers end with the
  total resistance \<open>rTotal\<close>. If \<open>rTotal\<close> is not zero, \<^verbatim>\<open>calculate_heat_transfer\<close>
  produces \<open>uValue = 1 / rTotal\<close>, \<open>fluxPerArea = (tOutside - tInside) / rTotal\<close> and
  \<open>totalFlow = fluxPerArea * area\<close>; and whatever results it produces satisfy these three
  equations.
\<close>

theorem calculate_heat_transfer_outputs:
  assumes "float_of entry_t_inside = Some t_inside"
      and "float_of entry_t_outside = Some t_outside"
      and "float_of entry_r_inside_film = Some r_inside_film"
      and "float_of entry_r_outside_film = Some r_outside_film"
      and "float_of entry_wall_area = Some wall_area"
      and "sum_layers layers (fadd r_inside_film r_outside_film) = Inr rTotal"
  shows "(rTotal \<noteq> Finite 0 \<longrightarrow>
            calculate_heat_transfer float_of entry_t_inside entry_t_outside
              entry_r_inside_film entry_r_outside_film entry_wall_area layers
            = Inr (Results \<lparr>total_resistance = rTotal, u_value = fdiv (Finite 1) rTotal,
                     q_per_ft2 = fdiv (fsub t_outside t_inside) rTotal,
                     q_total = fmul (fdiv (fsub t_outside t_inside) rTotal) wall_area\<rparr>))
       \<and> (\<forall>q. calculate_heat_transfer float_of entry_t_inside entry_t_outside
              entry_r_inside_film entry_r_outside_film entry_wall_area layers
            = Inr (Results q) \<longrightarrow>
            total_resistance q = rTotal \<and> u_value q = fdiv (Finite 1) rTotal
            \<and> q_per_ft2 q = fdiv (fsub t_outside t_inside) rTotal
            \<and> q_total q = fmul (q_per_ft2 q) wall_area)"
  using assms(6)
  by (auto simp: calculate_heat_transfer_Some [OF assms(1-5)])

text \<open>Inside 70, outside 20, films 0.5 and 0.25, one series layer of R 15.25, area 100:
  the total is 16, the U-value 0.0625, the flux -3.125 and the flow -312.5.\<close>

theorem calculate_heat_transfer_outputs_witness:
  "calculate_heat_transfer float_of_decimal ''70'' ''20'' ''0.5'' ''0.25'' ''100''
     [Series (Finite 15.25) ''Custom R-value'']
   = Inr (Results \<lparr>total_resistance = Finite 16, u_value = Finite 0.0625,
            q_per_ft2 = Finite (- 3.125), q_total = Finite (- 312.5)\<rparr>)"
proof -
  have s: "sum_layers [Series (Finite 15.25) ''Custom R-value'']
             (fadd (Finite 0.5) (Finite 0.25)) = Inr (Finite 16)"
    by (simp add: b64_simps)
  from calculate_heat_transfer_outputs [OF float_of_decimal_70 float_of_decimal_20
      float_of_decimal_05 float_of_decimal_025 float_of_decimal_100 s]
  show ?thesis by (simp add: fsub_def b64_simps)
qed

subsection \<open>A zero total resistance\<close>

text \<open>
  C4 asks that an assembly whose total resistance is zero be rejected with a result of
  its own instead of the division being attempted. The code attempts it: with the film
  entries "0" and "0" and no layer, \<^verbatim>\<open>(t_outside - t_inside) / total_resistance\<close> raises
  \<^verbatim>\<open>ZeroDivisionError\<close>, which \<^verbatim>\<open>except ValueError\<close> does not catch.
\<close>

theorem calculate_heat_transfer_zero_raises:
  "calculate_heat_transfer float_of_decimal ''70'' ''20'' ''0'' ''0'' ''100'' []
     = Inl ZeroDivisionError"
  by (simp add: calculate_heat_transfer_def parse_simps)

subsection \<open>The order of the layers\<close>







subsection \<open>What the OK button accepts\<close>

lemma strip_None: "strip ''None'' = ''None''"
  by (simp add: strip_def isspace_def)

lemma on_ok_Inr_iff:
  "on_ok float_of area_left last_path w = Inr (rv, a, m) \<longleftrightarrow>
     ((strip (ent_r w) \<noteq> [] \<and> float_of (strip (ent_r w)) = Some rv
         \<and> \<not> fle rv (Finite 0) \<and> m = ''Custom R-value'')
      \<or> (strip (ent_r w) = [] \<and> strip (combo_r w) \<noteq> ''None''
         \<and> materials_r_values (strip (combo_r w)) = Some rv \<and> m = strip (combo_r w)))
     \<and> float_of (strip (ent_a w)) = Some a \<and> \<not> fle a (Finite 0)
     \<and> (if last_path then \<not> fgt (fabs (fsub a area_left)) float_1e_6
         else \<not> fgt a area_left)"
  by (auto simp: on_ok_def Let_def split: option.splits if_splits)

lemma on_ok_source_rejected_iff:
  "on_ok float_of area_left last_path w = Inl Please_type_an_R_value_or_select_a_material \<longleftrightarrow>
     strip (ent_r w) = []
     \<and> (strip (combo_r w) = ''None'' \<or> materials_r_values (strip (combo_r w)) = None)"
  by (auto simp: on_ok_def Let_def split: option.splits if_splits)

lemma on_ok_r_value_rejected_iff:
  "on_ok float_of area_left last_path w = Inl Please_enter_a_positive_numeric_R_value \<longleftrightarrow>
     strip (ent_r w) \<noteq> []
     \<and> (case float_of (strip (ent_r w)) of None \<Rightarrow> True | Some rv \<Rightarrow> fle rv (Finite 0))"
  by (auto simp: on_ok_def Let_def split: option.splits if_splits)

lemma on_ok_area_inner:
  assumes "on_ok float_of area_left False w \<noteq> Inl Please_type_an_R_value_or_select_a_material"
      and "on_ok float_of area_left False w \<noteq> Inl Please_enter_a_positive_numeric_R_value"
      and "float_of (strip (ent_a w)) = Some a_val"
  shows "\<exists>rv m. on_ok float_of area_left False w =
     (if fle a_val (Finite 0) then Inl Please_enter_a_positive_area_percent
      else if fgt a_val area_left then
        Inl (This_paths_area_exceeds_the_remaining (format_2f a_val) (format_2f area_left))
      else Inr (rv, a_val, m))"
  using assms
  by (auto simp: on_ok_def Let_def split: option.splits if_splits)

lemma on_ok_area_last:
  assumes "on_ok float_of area_left True w \<noteq> Inl Please_type_an_R_value_or_select_a_material"
      and "on_ok float_of area_left True w \<noteq> Inl Please_enter_a_positive_numeric_R_value"
      and "float_of (strip (ent_a w)) = Some a_val"
  shows "\<exists>rv m. on_ok float_of area_left True w =
     (if fle a_val (Finite 0) then Inl Please_enter_a_positive_area_percent
      else if fgt (fabs (fsub a_val area_left)) float_1e_6 then
        Inl (Last_path_must_use_exactly (format_2f area_left) (format_2f a_val))
      else Inr (rv, a_val, m))"
  using assms
  by (auto simp: on_ok_def Let_def split: option.splits if_splits)

subsection \<open>The last path of a parallel layer\<close>

text \<open>
  C6, as the code has it. Take the last path of a parallel layer, the remaining area being
  100 minus the areas accepted so far, and a submission that is not turned down for its
  R-value source and whose area text parses as \<open>v\<close>; let the remaining area be finite and
  \<open>v\<close> not be \<^verbatim>\<open>nan\<close>. The submission is accepted iff \<open>0 < v\<close> and
  \<open>|v - remainingArea| \<le> 1e-6\<close>. A \<open>v \<le> 0\<close> is turned down with "Please enter a
  positive area percent", which names no remaining area. Any other \<open>v\<close> is turned down
  with the message "Last path must use exactly ..", which carries the remaining area and
  \<open>v\<close>, each as its \<^verbatim>\<open>:.2f\<close> field prints it.
\<close>

theorem last_path_acceptance:
  assumes "on_ok float_of (fsub (Finite 100) area_used_so_far) True w
             \<noteq> Inl Please_type_an_R_value_or_select_a_material"
      and "on_ok float_of (fsub (Finite 100) area_used_so_far) True w
             \<noteq> Inl Please_enter_a_positive_numeric_R_value"
      and "float_of (strip (ent_a w)) = Some v"
      and "v \<noteq> NaN"
      and "fsub (Finite 100) area_used_so_far = Finite remainingArea"
  shows "((\<exists>rv m. on_ok float_of (fsub (Finite 100) area_used_so_far) True w = Inr (rv, v, m))
            \<longleftrightarrow> fgt v (Finite 0)
                \<and> fle (fabs (fsub v (Finite remainingArea))) float_1e_6)
       \<and> (fle v (Finite 0) \<longrightarrow> on_ok float_of (fsub (Finite 100) area_used_so_far) True w
              = Inl Please_enter_a_positive_area_percent)
       \<and> (fgt v (Finite 0) \<and> fgt (fabs (fsub v (Finite remainingArea))) float_1e_6 \<longrightarrow>
            on_ok float_of (fsub (Finite 100) area_used_so_far) True w
              = Inl (Last_path_must_use_exactly
                       (format_2f (Finite remainingArea)) (format_2f v)))"
proof -
  have p: "fle v (Finite 0) \<longleftrightarrow> \<not> fgt v (Finite 0)"
    using assms(4) by (simp add: fle_iff_not_fgt)
  have "fabs (fsub v (Finite remainingArea)) \<noteq> NaN"
    using assms(4) by (simp add: fabs_not_NaN fsub_Finite_not_NaN)
  moreover have "float_1e_6 \<noteq> NaN" by (simp add: float_1e_6_def binary64_not_NaN)
  ultimately have t: "fle (fabs (fsub v (Finite remainingArea))) float_1e_6
      \<longleftrightarrow> \<not> fgt (fabs (fsub v (Finite remainingArea))) float_1e_6"
    by (simp add: fle_iff_not_fgt)
  from on_ok_area_last [OF assms(1,2,3)] obtain rv m where
    eq: "on_ok float_of (Finite remainingArea) True w =
      (if fle v (Finite 0) then Inl Please_enter_a_positive_area_percent
       else if fgt (fabs (fsub v (Finite remainingArea))) float_1e_6 then
         Inl (Last_path_must_use_exactly (format_2f (Finite remainingArea)) (format_2f v))
       else Inr (rv, v, m))"
    unfolding assms(5) by blast
  show ?thesis
    unfolding assms(5)
    using p t
    by (cases "fle v (Finite 0)"; cases "fgt (fabs (fsub v (Finite remainingArea))) float_1e_6")
      (simp_all add: eq del: format_2f.simps)
qed

text \<open>The specification's scenario: 90% used, the last path submitted with 5% is turned
  down with a remaining area of 10; submitted with 10% it is accepted.\<close>

theorem last_path_acceptance_witness:
  "on_ok float_of_decimal (fsub (Finite 100) (Finite 90)) True
     \<lparr>ent_r = ''13'', combo_r = ''None'', ent_a = ''5''\<rparr>
     = Inl (Last_path_must_use_exactly (Finite 10) (Finite 5))
   \<and> on_ok float_of_decimal (fsub (Finite 100) (Finite 90)) True
     \<lparr>ent_r = ''13'', combo_r = ''None'', ent_a = ''10''\<rparr>
     = Inr (Finite 13, Finite 10, ''Custom R-value'')"
proof -
  let ?w5 = "\<lparr>ent_r = ''13'', combo_r = ''None'', ent_a = ''5''\<rparr>"
  let ?w10 = "\<lparr>ent_r = ''13'', combo_r = ''None'', ent_a = ''10''\<rparr>"
  have l: "fsub (Finite 100) (Finite 90) = Finite 10" by (simp add: fsub_def b64_simps)
  have r13: "float_of_decimal (strip ''13'') = Some (Finite 13)"
    by (simp add: parse_simps strip_def isspace_def)
  have a5: "float_of_decimal (strip (ent_a ?w5)) = Some (Finite 5)"
    by (simp add: parse_simps strip_def isspace_def)
  have s5: "on_ok float_of_decimal (fsub (Finite 100) (Finite 90)) True ?w5
           \<noteq> Inl Please_type_an_R_value_or_select_a_material"
    by (simp add: on_ok_source_rejected_iff strip_def isspace_def)
  have r5: "on_ok float_of_decimal (fsub (Finite 100) (Finite 90)) True ?w5
           \<noteq> Inl Please_enter_a_positive_numeric_R_value"
    using r13 by (simp add: on_ok_r_value_rejected_iff)
  have d5: "fgt (fabs (fsub (Finite 5) (Finite 10))) float_1e_6"
    by (simp add: fsub_def float_1e_6_def b64_simps)
  have f: "format_2f (Finite 10) = Finite 10" "format_2f (Finite 5) = Finite 5"
    by (simp_all add: round_half_even_def)
  have 1: "on_ok float_of_decimal (fsub (Finite 100) (Finite 90)) True ?w5
           = Inl (Last_path_must_use_exactly (Finite 10) (Finite 5))"
    using last_path_acceptance [OF s5 r5 a5 _ l] d5 f by simp
  have a10: "float_of_decimal (strip (ent_a ?w10)) = Some (Finite 10)"
    by (simp add: parse_simps strip_def isspace_def)
  have s10: "on_ok float_of_decimal (fsub (Finite 100) (Finite 90)) True ?w10
           \<noteq> Inl Please_type_an_R_value_or_select_a_material"
    by (simp add: on_ok_source_rejected_iff strip_def isspace_def)
  have r10: "on_ok float_of_decimal (fsub (Finite 100) (Finite 90)) True ?w10
           \<noteq> Inl Please_enter_a_positive_numeric_R_value"
    using r13 by (simp add: on_ok_r_value_rejected_iff)
  have d10: "fle (fabs (fsub (Finite 10) (Finite 10))) float_1e_6"
    by (simp add: fsub_def float_1e_6_def b64_simps)
  from last_path_acceptance [OF s10 r10 a10 _ l] d10
  have "\<exists>rv m. on_ok float_of_decimal (fsub (Finite 100) (Finite 90)) True ?w10
           = Inr (rv, Finite 10, m)"
    by simp
  then have 2: "on_ok float_of_decimal (fsub (Finite 100) (Finite 90)) True ?w10
           = Inr (Finite 13, Finite 10, ''Custom R-value'')"
    using r13 by (auto simp: on_ok_Inr_iff) (simp_all add: strip_def isspace_def)
  from 1 2 show ?thesis by simp
qed

text \<open>C6 as it is stated fails in two ways. With nothing remaining, a submitted 0 is within
  \<open>1e-6\<close> of the remaining area and is turned down all the same. And with
  \<open>100 - 1/1024 = 99.9990234375\<close> remaining, the message for a submitted 50 reports a
  remaining area of 100.00.\<close>

theorem last_path_zero_counterexample:
  "float_of_decimal (strip ''0'') = Some (Finite 0)
   \<and> fsub (Finite 100) (Finite 100) = Finite 0
   \<and> fle (fabs (fsub (Finite 0) (Finite 0))) float_1e_6
   \<and> on_ok float_of_decimal (fsub (Finite 100) (Finite 100)) True
        \<lparr>ent_r = ''13'', combo_r = ''None'', ent_a = ''0''\<rparr>
      = Inl Please_enter_a_positive_area_percent
   \<and> fsub (Finite 100) (Finite (1 / 1024)) = Finite (100 - 1 / 1024)
   \<and> on_ok float_of_decimal (fsub (Finite 100) (Finite (1 / 1024))) True
        \<lparr>ent_r = ''13'', combo_r = ''None'', ent_a = ''50''\<rparr>
      = Inl (Last_path_must_use_exactly (Finite 100) (Finite 50))"
  by (simp add: run_simps)

subsection \<open>The loop over the paths\<close>

lemma prompt_parallel_path_Some:
  "prompt_parallel_path float_of used lp ws = (ms, Some res) \<Longrightarrow>
   \<exists>w \<in> set ws. on_ok float_of (fsub (Finite 100) used) lp w = Inr res"
  by (induction ws arbitrary: ms) (auto simp: Let_def split: sum.splits prod.splits)

text \<open>A loop that ran to its end handed back one path for each dialog, each accepted by
  \<^verbatim>\<open>on_ok\<close> against the area left at that point, and the areas added up in their
  order.\<close>

lemma add_parallel_layer_loop_Inr:
  "add_parallel_layer_loop float_of dialogs n i paths used = (ms, Inr (ps, tot)) \<Longrightarrow>
   \<exists>new. ps = paths @ new \<and> length new = n - i
     \<and> tot = foldl fadd used (map area_percent new)
     \<and> (\<forall>k < length new. \<exists>w \<in> set (dialogs (i + k)).
           on_ok float_of
             (fsub (Finite 100) (foldl fadd used (map area_percent (take k new))))
             (i + k = n - 1) w
           = Inr (r_value (new ! k), area_percent (new ! k), material (new ! k)))"
proof (induction float_of dialogs n i paths used arbitrary: ms ps tot
    rule: add_parallel_layer_loop.induct)
  case (1 float_of dialogs n i paths used)
  show ?case
  proof (cases "i < n")
    case False
    with "1.prems" show ?thesis
      by (simp add: add_parallel_layer_loop.simps)
  next
    case True
    obtain ms1 r where pr: "prompt_parallel_path float_of used (i = n - 1) (dialogs i) = (ms1, r)"
      by (cases "prompt_parallel_path float_of used (i = n - 1) (dialogs i)")
    from "1.prems" True pr obtain rv a m where r: "r = Some (rv, a, m)"
      by (cases r) (auto simp: add_parallel_layer_loop.simps [of _ _ n i])
    let ?p = "\<lparr>r_value = rv, area_percent = a, material = m\<rparr>"
    obtain ms2 res where rec: "add_parallel_layer_loop float_of dialogs n (i + 1)
        (paths @ [?p]) (fadd used a) = (ms2, res)"
      by (cases "add_parallel_layer_loop float_of dialogs n (i + 1) (paths @ [?p])
            (fadd used a)")
    from "1.prems" True pr r rec have res: "res = Inr (ps, tot)"
      by (simp add: add_parallel_layer_loop.simps [of _ _ n i])
    from "1.IH" [OF True refl pr [symmetric] r refl refl rec [unfolded res]]
    obtain new where new: "ps = (paths @ [?p]) @ new" "length new = n - (i + 1)"
      "tot = foldl fadd (fadd used a) (map area_percent new)"
      "\<forall>k < length new. \<exists>w \<in> set (dialogs (i + 1 + k)).
           on_ok float_of
             (fsub (Finite 100) (foldl fadd (fadd used a) (map area_percent (take k new))))
             (i + 1 + k = n - 1) w
           = Inr (r_value (new ! k), area_percent (new ! k), material (new ! k))"
      by blast
    from prompt_parallel_path_Some [OF pr [unfolded r]]
    obtain w0 where w0: "w0 \<in> set (dialogs i)"
      "on_ok float_of (fsub (Finite 100) used) (i = n - 1) w0 = Inr (rv, a, m)" by blast
    have "\<forall>k < length (?p # new). \<exists>w \<in> set (dialogs (i + k)).
           on_ok float_of
             (fsub (Finite 100) (foldl fadd used (map area_percent (take k (?p # new)))))
             (i + k = n - 1) w
           = Inr (r_value ((?p # new) ! k), area_percent ((?p # new) ! k),
                  material ((?p # new) ! k))"
    proof (intro allI impI)
      fix k assume k: "k < length (?p # new)"
      show "\<exists>w \<in> set (dialogs (i + k)).
           on_ok float_of
             (fsub (Finite 100) (foldl fadd used (map area_percent (take k (?p # new)))))
             (i + k = n - 1) w
           = Inr (r_value ((?p # new) ! k), area_percent ((?p # new) ! k),
                  material ((?p # new) ! k))"
      proof (cases k)
        case 0
        with w0 show ?thesis by auto
      next
        case (Suc k')
        with k have "k' < length new" by simp
        with new(4) obtain w where "w \<in> set (dialogs (i + 1 + k'))"
          "on_ok float_of
             (fsub (Finite 100) (foldl fadd (fadd used a) (map area_percent (take k' new))))
             (i + 1 + k' = n - 1) w
           = Inr (r_value (new ! k'), area_percent (new ! k'), material (new ! k'))"
          by blast
        with Suc show ?thesis by auto
      qed
    qed
    moreover have "ps = paths @ (?p # new)" using new(1) by simp
    moreover have "length (?p # new) = n - i" using new(2) True by simp
    moreover have "tot = foldl fadd used (map area_percent (?p # new))" using new(3) by simp
    ultimately show ?thesis by blast
  qed
qed

lemma add_parallel_layer_loop_complete:
  assumes "add_parallel_layer_loop float_of dialogs n 0 [] (Finite 0) = (ms, Inr (ps, tot))"
  shows "length ps = n"
    and "tot = foldl fadd (Finite 0) (map area_percent ps)"
    and "\<forall>i < n. \<exists>w \<in> set (dialogs i).
           on_ok float_of
             (fsub (Finite 100) (foldl fadd (Finite 0) (map area_percent (take i ps))))
             (i = n - 1) w
           = Inr (r_value (ps ! i), area_percent (ps ! i), material (ps ! i))"
  using add_parallel_layer_loop_Inr [OF assms] by auto

lemma add_parallel_layer_loop_Inl:
  "add_parallel_layer_loop float_of dialogs n i paths used = (ms, Inl e) \<Longrightarrow> e = TypeError"
proof (induction float_of dialogs n i paths used arbitrary: ms
    rule: add_parallel_layer_loop.induct)
  case (1 float_of dialogs n i paths used)
  show ?case
  proof (cases "i < n")
    case False
    with "1.prems" show ?thesis
      by (simp add: add_parallel_layer_loop.simps)
  next
    case True
    obtain ms1 r where pr: "prompt_parallel_path float_of used (i = n - 1) (dialogs i) = (ms1, r)"
      by (cases "prompt_parallel_path float_of used (i = n - 1) (dialogs i)")
    show ?thesis
    proof (cases r)
      case None
      with "1.prems" True pr show ?thesis
        by (simp add: add_parallel_layer_loop.simps [of _ _ n i])
    next
      case (Some t)
      obtain rv a m where t: "t = (rv, a, m)" by (cases t)
      let ?p = "\<lparr>r_value = rv, area_percent = a, material = m\<rparr>"
      obtain ms2 res where rec: "add_parallel_layer_loop float_of dialogs n (i + 1)
          (paths @ [?p]) (fadd used a) = (ms2, res)"
        by (cases "add_parallel_layer_loop float_of dialogs n (i + 1) (paths @ [?p])
              (fadd used a)")
      from "1.prems" True pr Some t rec have res: "res = Inl e"
        by (simp add: add_parallel_layer_loop.simps [of _ _ n i])
      from "1.IH" [OF True refl pr [symmetric] Some [unfolded t] refl refl rec [unfolded res]]
      show ?thesis .
    qed
  qed
qed

text \<open>The four ways \<^verbatim>\<open>add_parallel_layer\<close> ends.\<close>

lemma add_parallel_layer_cases:
  obtains
    (invalid) "(case int_of entry_num_paths of None \<Rightarrow> True | Some num_paths \<Rightarrow> num_paths \<le> 0)"
      "add_parallel_layer float_of int_of entry_num_paths dialogs layers
        = \<lparr>shown = [Please_enter_a_valid_positive_integer], raised = None,
           new_layers = layers, redrawn = False\<rparr>"
  | (closed) n ms where "int_of entry_num_paths = Some (int n)" "0 < n"
      "add_parallel_layer_loop float_of dialogs n 0 [] (Finite 0) = (ms, Inl TypeError)"
      "add_parallel_layer float_of int_of entry_num_paths dialogs layers
        = \<lparr>shown = ms, raised = Some TypeError, new_layers = layers, redrawn = False\<rparr>"
  | (total) n ms ps tot where "int_of entry_num_paths = Some (int n)" "0 < n"
      "add_parallel_layer_loop float_of dialogs n 0 [] (Finite 0) = (ms, Inr (ps, tot))"
      "fgt (fabs (fsub tot (Finite 100))) float_1e_6"
      "add_parallel_layer float_of int_of entry_num_paths dialogs layers
        = \<lparr>shown = ms @ [The_total_area_is (format_2f tot)], raised = None,
           new_layers = layers, redrawn = False\<rparr>"
  | (appended) n ms ps tot where "int_of entry_num_paths = Some (int n)" "0 < n"
      "add_parallel_layer_loop float_of dialogs n 0 [] (Finite 0) = (ms, Inr (ps, tot))"
      "\<not> fgt (fabs (fsub tot (Finite 100))) float_1e_6"
      "add_parallel_layer float_of int_of entry_num_paths dialogs layers
        = \<lparr>shown = ms, raised = None, new_layers = layers @ [Parallel ps], redrawn = True\<rparr>"
proof (cases "int_of entry_num_paths")
  case None
  then show ?thesis by (intro invalid) (simp_all add: add_parallel_layer_def)
next
  case (Some num_paths)
  show ?thesis
  proof (cases "num_paths \<le> 0")
    case True
    with Some show ?thesis by (intro invalid) (simp_all add: add_parallel_layer_def)
  next
    case False
    define n where "n = nat num_paths"
    with False have n: "num_paths = int n" "0 < n" by simp_all
    obtain ms r where l: "add_parallel_layer_loop float_of dialogs n 0 [] (Finite 0) = (ms, r)"
      by (cases "add_parallel_layer_loop float_of dialogs n 0 [] (Finite 0)")
    show ?thesis
    proof (cases r)
      case (Inl e)
      with l have e: "e = TypeError" by (auto dest: add_parallel_layer_loop_Inl)
      show ?thesis
        using Some n l Inl e by (intro closed [of n ms]) (simp_all add: add_parallel_layer_def)
    next
      case (Inr t)
      obtain ps tot where t: "t = (ps, tot)" by (cases t)
      show ?thesis
      proof (cases "fgt (fabs (fsub tot (Finite 100))) float_1e_6")
        case True
        then show ?thesis
          using Some n l Inr t
          by (intro total [of n ms ps tot])
            (simp_all add: add_parallel_layer_def del: format_2f.simps)
      next
        case False
        then show ?thesis
          using Some n l Inr t
          by (intro appended [of n ms ps tot]) (simp_all add: add_parallel_layer_def)
      qed
    qed
  qed
qed

subsection \<open>A parallel layer is committed whole or not at all\<close>



text \<open>A run that commits: the third path is first submitted with 5%, then with 10%.\<close>

lemma add_parallel_layer_three_paths:
  "add_parallel_layer float_of_decimal int_of_decimal ''3''
      (\<lambda>i. if i = 0 then [\<lparr>ent_r = ''13'', combo_r = ''None'', ent_a = ''60''\<rparr>]
           else if i = 1 then [\<lparr>ent_r = ''2'', combo_r = ''None'', ent_a = ''30''\<rparr>]
           else [\<lparr>ent_r = ''5'', combo_r = ''None'', ent_a = ''5''\<rparr>,
                 \<lparr>ent_r = ''5'', combo_r = ''None'', ent_a = ''10''\<rparr>])
      [Series (Finite 13) ''Custom R-value'']
   = \<lparr>shown = [Last_path_must_use_exactly (Finite 10) (Finite 5)], raised = None,
      new_layers = [Series (Finite 13) ''Custom R-value'',
        Parallel [\<lparr>r_value = Finite 13, area_percent = Finite 60,
                     material = ''Custom R-value''\<rparr>,
                  \<lparr>r_value = Finite 2, area_percent = Finite 30,
                     material = ''Custom R-value''\<rparr>,
                  \<lparr>r_value = Finite 5, area_percent = Finite 10,
                     material = ''Custom R-value''\<rparr>]],
      redrawn = True\<rparr>"
  by (simp add: run_simps)

subsection \<open>The bound on a path's area\<close>

text \<open>For a path that is not the last, with a submission that is not turned down for its
  R-value source, an area that is a number and a remaining area that is a number: the
  submission is accepted iff \<open>0 < a\<close> and \<open>a \<le> remainingArea\<close>. The bound is not strict:
  an area equal to all that remains is accepted.\<close>

lemma inner_path_acceptance:
  assumes "on_ok float_of area_left False w \<noteq> Inl Please_type_an_R_value_or_select_a_material"
      and "on_ok float_of area_left False w \<noteq> Inl Please_enter_a_positive_numeric_R_value"
      and "float_of (strip (ent_a w)) = Some a"
      and "a \<noteq> NaN" and "area_left \<noteq> NaN"
  shows "(\<exists>rv m. on_ok float_of area_left False w = Inr (rv, a, m))
           \<longleftrightarrow> fgt a (Finite 0) \<and> fle a area_left"
proof -
  have p: "fle a (Finite 0) \<longleftrightarrow> \<not> fgt a (Finite 0)"
    using assms(4) by (simp add: fle_iff_not_fgt)
  have t: "fle a area_left \<longleftrightarrow> \<not> fgt a area_left"
    using assms(4,5) by (simp add: fle_iff_not_fgt)
  from on_ok_area_inner [OF assms(1,2,3)] obtain rv m where
    eq: "on_ok float_of area_left False w =
      (if fle a (Finite 0) then Inl Please_enter_a_positive_area_percent
       else if fgt a area_left then
         Inl (This_paths_area_exceeds_the_remaining (format_2f a) (format_2f area_left))
       else Inr (rv, a, m))"
    by blast
  show ?thesis
    using p t
    by (cases "fle a (Finite 0)"; cases "fgt a area_left") (simp_all add: eq del: format_2f.simps)
qed

lemma inner_path_whole_remainder:
  "on_ok float_of_decimal (fsub (Finite 100) (Finite 60)) False
     \<lparr>ent_r = ''13'', combo_r = ''None'', ent_a = ''40''\<rparr>
   = Inr (Finite 13, Finite 40, ''Custom R-value'')"
  by (simp add: run_simps)

text \<open>
  C10 fails on the program. The claim has the last path, when the paths before it already
  add up to 100, accepted exactly for the areas \<open>v\<close> with \<open>0 < v \<le> 1e-6\<close>, and the
  areas of a committed layer add up to at most \<open>100 + 1e-6\<close>. The area text "nan" parses
  as the float \<^verbatim>\<open>nan\<close>, and each comparison \<^verbatim>\<open>on_ok\<close> and \<^verbatim>\<open>add_parallel_layer\<close> make
  with it is false: with 100 used by the first of two paths, the last path is accepted
  with the area \<^verbatim>\<open>nan\<close>, which is not above 0, and the layer is committed with areas that
  add up to \<^verbatim>\<open>nan\<close>, which is not at most \<open>100 + 1e-6\<close>. The same holds of a path that is
  not the last.
\<close>

theorem nan_area_committed:
  "float_of_decimal (strip ''nan'') = Some NaN
   \<and> fsub (Finite 100) (fadd (Finite 0) (Finite 100)) = Finite 0
   \<and> on_ok float_of_decimal (fsub (Finite 100) (fadd (Finite 0) (Finite 100))) True
        \<lparr>ent_r = ''2'', combo_r = ''None'', ent_a = ''nan''\<rparr>
      = Inr (Finite 2, NaN, ''Custom R-value'')
   \<and> \<not> fgt NaN (Finite 0)
   \<and> \<not> fle NaN float_1e_6
   \<and> add_parallel_layer float_of_decimal int_of_decimal ''2''
        (\<lambda>i. if i = 0 then [\<lparr>ent_r = ''13'', combo_r = ''None'', ent_a = ''100''\<rparr>]
             else [\<lparr>ent_r = ''2'', combo_r = ''None'', ent_a = ''nan''\<rparr>])
        []
      = \<lparr>shown = [], raised = None,
         new_layers = [
           Parallel [\<lparr>r_value = Finite 13, area_percent = Finite 100,
                        material = ''Custom R-value''\<rparr>,
                     \<lparr>r_value = Finite 2, area_percent = NaN,
                        material = ''Custom R-value''\<rparr>]],
         redrawn = True\<rparr>
   \<and> fadd (fadd (Finite 0) (Finite 100)) NaN = NaN
   \<and> \<not> fle NaN (fadd (Finite 100) float_1e_6)
   \<and> on_ok float_of_decimal (fsub (Finite 100) (Finite 0)) False
        \<lparr>ent_r = ''13'', combo_r = ''None'', ent_a = ''nan''\<rparr>
      = Inr (Finite 13, NaN, ''Custom R-value'')"
  by (simp add: run_simps)

subsection \<open>The source of an R-value\<close>

text \<open>
  C5, as the code has it. Neither \<^verbatim>\<open>add_series_layer\<close> nor \<^verbatim>\<open>on_ok\<close> checks that exactly
  one source is present. When the typed text is not empty the selection in the combobox is
  not looked at: the outcome is the one with "None" selected, and a typed number above
  zero is stored under the name "Custom R-value". The message "Please type an R-value or
  select a material." is shown exactly when the typed text is empty and the selection is
  "None" or not a key of the material table. Whenever \<^verbatim>\<open>add_series_layer\<close> shows a message
  the layer list is unchanged.
\<close>

theorem typed_value_takes_precedence:
  "(strip entry_r_value \<noteq> [] \<longrightarrow>
      add_series_layer float_of entry_r_value combo_material layers
      = add_series_layer float_of entry_r_value ''None'' layers)
   \<and> (strip entry_r_value \<noteq> [] \<and> float_of (strip entry_r_value) = Some val
        \<and> fgt val (Finite 0) \<longrightarrow>
      add_series_layer float_of entry_r_value combo_material layers
      = \<lparr>shown = [], raised = None,
         new_layers = layers @ [Series val ''Custom R-value''], redrawn = True\<rparr>)
   \<and> (shown (add_series_layer float_of entry_r_value combo_material layers)
        = [Please_type_an_R_value_or_select_a_material]
      \<longleftrightarrow> strip entry_r_value = []
          \<and> (strip combo_material = ''None''
             \<or> materials_r_values (strip combo_material) = None))
   \<and> (shown (add_series_layer float_of entry_r_value combo_material layers) \<noteq> [] \<longrightarrow>
      new_layers (add_series_layer float_of entry_r_value combo_material layers) = layers)
   \<and> (strip (ent_r w) \<noteq> [] \<longrightarrow>
      on_ok float_of area_left last_path w
      = on_ok float_of area_left last_path (w\<lparr>combo_r := ''None''\<rparr>))
   \<and> (on_ok float_of area_left last_path w = Inl Please_type_an_R_value_or_select_a_material
      \<longleftrightarrow> strip (ent_r w) = []
          \<and> (strip (combo_r w) = ''None'' \<or> materials_r_values (strip (combo_r w)) = None))"
proof -
  have 1: "strip entry_r_value \<noteq> [] \<longrightarrow>
      add_series_layer float_of entry_r_value combo_material layers
      = add_series_layer float_of entry_r_value ''None'' layers"
    by (simp add: add_series_layer_def Let_def)
  have 2: "strip entry_r_value \<noteq> [] \<and> float_of (strip entry_r_value) = Some val
        \<and> fgt val (Finite 0) \<longrightarrow>
      add_series_layer float_of entry_r_value combo_material layers
      = \<lparr>shown = [], raised = None,
         new_layers = layers @ [Series val ''Custom R-value''], redrawn = True\<rparr>"
    by (auto simp: add_series_layer_def Let_def dest: fgt_imp_not_fle)
  have 3: "shown (add_series_layer float_of entry_r_value combo_material layers)
        = [Please_type_an_R_value_or_select_a_material]
      \<longleftrightarrow> strip entry_r_value = []
          \<and> (strip combo_material = ''None''
             \<or> materials_r_values (strip combo_material) = None)"
    by (auto simp: add_series_layer_def Let_def split: option.splits)
  have 4: "shown (add_series_layer float_of entry_r_value combo_material layers) \<noteq> [] \<longrightarrow>
      new_layers (add_series_layer float_of entry_r_value combo_material layers) = layers"
    by (auto simp: add_series_layer_def Let_def split: option.splits)
  have 5: "strip (ent_r w) \<noteq> [] \<longrightarrow>
      on_ok float_of area_left last_path w
      = on_ok float_of area_left last_path (w\<lparr>combo_r := ''None''\<rparr>)"
    by (simp add: on_ok_def Let_def)
  from 1 2 3 4 5 on_ok_source_rejected_iff [of float_of area_left last_path w]
  show ?thesis by blast
qed

theorem typed_value_takes_precedence_witness:
  "add_series_layer float_of_decimal ''13'' ''1/2-inch Drywall (R=0.45)'' []
     = add_series_layer float_of_decimal ''13'' ''None'' []
   \<and> add_series_layer float_of_decimal ''13'' ''None'' []
     = \<lparr>shown = [], raised = None, new_layers = [Series (Finite 13) ''Custom R-value''],
        redrawn = True\<rparr>"
proof -
  have s: "strip ''13'' \<noteq> []" by (simp add: strip_def isspace_def)
  have p: "float_of_decimal (strip ''13'') = Some (Finite 13)"
    by (simp add: strip_def isspace_def parse_simps)
  from typed_value_takes_precedence [of "''13''" float_of_decimal
      "''1/2-inch Drywall (R=0.45)''" "[]" "Finite 13"] s
  have 1: "add_series_layer float_of_decimal ''13'' ''1/2-inch Drywall (R=0.45)'' []
     = add_series_layer float_of_decimal ''13'' ''None'' []" by blast
  from typed_value_takes_precedence [of "''13''" float_of_decimal "''None''" "[]" "Finite 13"]
    s p
  have 2: "add_series_layer float_of_decimal ''13'' ''None'' []
     = \<lparr>shown = [], raised = None, new_layers = [] @ [Series (Finite 13) ''Custom R-value''],
        redrawn = True\<rparr>" by simp
  from 1 2 show ?thesis by simp
qed

text \<open>C5 as it is stated fails: with "5" typed and a material of the table selected, the
  series layer and the path are stored with the typed value.\<close>

theorem both_sources_counterexample:
  "strip ''5'' = ''5''
   \<and> materials_r_values (strip ''1/2-inch Drywall (R=0.45)'') = Some (binary64 0.45)
   \<and> add_series_layer float_of_decimal ''5'' ''1/2-inch Drywall (R=0.45)'' []
     = \<lparr>shown = [], raised = None, new_layers = [Series (Finite 5) ''Custom R-value''],
        redrawn = True\<rparr>
   \<and> on_ok float_of_decimal (Finite 100) False
        \<lparr>ent_r = ''5'', combo_r = ''1/2-inch Drywall (R=0.45)'', ent_a = ''40''\<rparr>
     = Inr (Finite 5, Finite 40, ''Custom R-value'')"
  by (simp add: run_simps)

subsection \<open>Removing a layer\<close>

text \<open>
  C8, as the code has it. \<^verbatim>\<open>confirm_delete_layer\<close> makes no existence check of its own.
  Once the user confirms, an index with \<open>-len \<le> index < len\<close> removes one layer, a negative
  index counting from the end as Python's \<^verbatim>\<open>del\<close> reads it; any other index raises
  \<^verbatim>\<open>IndexError\<close> and the list is unchanged. When the user declines nothing changes.
  \<^verbatim>\<open>delete_last_layer\<close> on the empty list changes nothing and shows "No layers to delete.";
  on any other list it removes the last layer.
\<close>

theorem remove_layer:
  "(response \<and> - int (length layers) \<le> index \<and> index < int (length layers) \<longrightarrow>
      confirm_delete_layer index response layers
      = \<lparr>shown = [], raised = None,
         new_layers =
           take (nat (if index < 0 then index + int (length layers) else index)) layers
           @ drop (Suc (nat (if index < 0 then index + int (length layers) else index))) layers,
         redrawn = True\<rparr>)
   \<and> (response \<and> (index < - int (length layers) \<or> int (length layers) \<le> index) \<longrightarrow>
      confirm_delete_layer index response layers
      = \<lparr>shown = [], raised = Some IndexError, new_layers = layers, redrawn = False\<rparr>)
   \<and> (\<not> response \<longrightarrow>
      confirm_delete_layer index response layers
      = \<lparr>shown = [], raised = None, new_layers = layers, redrawn = False\<rparr>)
   \<and> delete_last_layer []
      = \<lparr>shown = [No_layers_to_delete], raised = None, new_layers = [], redrawn = False\<rparr>
   \<and> (layers \<noteq> [] \<longrightarrow>
      delete_last_layer layers
      = \<lparr>shown = [], raised = None, new_layers = butlast layers, redrawn = True\<rparr>)"
  by (auto simp: confirm_delete_layer_def delete_last_layer_def Let_def)

theorem remove_layer_witness:
  "confirm_delete_layer 5 True [Series (Finite 13) ''Custom R-value'']
     = \<lparr>shown = [], raised = Some IndexError,
        new_layers = [Series (Finite 13) ''Custom R-value''], redrawn = False\<rparr>
   \<and> confirm_delete_layer 0 True
       [Series (Finite 13) ''Custom R-value'', Series (Finite 2) ''Custom R-value'']
     = \<lparr>shown = [], raised = None, new_layers = [Series (Finite 2) ''Custom R-value''],
        redrawn = True\<rparr>
   \<and> delete_last_layer
       [Series (Finite 13) ''Custom R-value'', Series (Finite 2) ''Custom R-value'']
     = \<lparr>shown = [], raised = None, new_layers = [Series (Finite 13) ''Custom R-value''],
        redrawn = True\<rparr>"
  using remove_layer [of True "[Series (Finite 13) ''Custom R-value'']" 5]
    remove_layer [of True
      "[Series (Finite 13) ''Custom R-value'', Series (Finite 2) ''Custom R-value'']" 0]
  by simp

text \<open>C8 as it is stated fails for a negative index: \<open>-1\<close> is no position of a one-layer
  sequence, yet the layer is removed and nothing is reported.\<close>

theorem negative_index_counterexample:
  "confirm_delete_layer (- 1) True [Series (Finite 13) ''Custom R-value'']
     = \<lparr>shown = [], raised = None, new_layers = [], redrawn = True\<rparr>"
  by (simp add: confirm_delete_layer_def)

subsection \<open>The stored R-values\<close>

text \<open>Every value of the material table is above zero.\<close>

lemma materials_table_positive:
  "\<forall>(k, v) \<in> set materials_table. fgt v (Finite 0)"
  by (simp add: materials_table_def b64_simps)

lemma materials_r_values_positive:
  assumes "materials_r_values k = Some v"
  shows "fgt v (Finite 0)"
proof -
  from assms have "(k, v) \<in> set materials_table"
    unfolding materials_r_values_def by (rule map_of_SomeD)
  with materials_table_positive show ?thesis by blast
qed

text \<open>What the guard \<^verbatim>\<open><= 0\<close> does keep out: in every layer list the four operations can
  reach from the empty list, no stored R-value is zero or negative.\<close>

lemma materials_r_values_guard:
  assumes "materials_r_values k = Some v"
  shows "\<not> fle v (Finite 0)"
  using materials_r_values_positive [OF assms] by (rule fgt_imp_not_fle)

lemma add_series_layer_guarded:
  assumes "\<forall>l \<in> set layers. guarded l"
  shows "\<forall>l \<in> set (new_layers (add_series_layer float_of entry_r_value combo_material layers)).
           guarded l"
proof (cases "strip entry_r_value \<noteq> []")
  case True
  with assms show ?thesis
    by (auto simp: add_series_layer_def Let_def split: option.splits)
next
  case False
  show ?thesis
  proof (cases "materials_r_values (strip combo_material)")
    case None
    with False assms show ?thesis by (simp add: add_series_layer_def Let_def)
  next
    case (Some v)
    from materials_r_values_guard [OF Some] False Some assms show ?thesis
      by (simp add: add_series_layer_def Let_def)
  qed
qed

lemma add_parallel_layer_guarded:
  assumes "\<forall>l \<in> set layers. guarded l"
  shows "\<forall>l \<in> set (new_layers
            (add_parallel_layer float_of int_of entry_num_paths dialogs layers)).
           guarded l"
proof (cases float_of int_of entry_num_paths dialogs layers rule: add_parallel_layer_cases)
  case invalid
  with assms show ?thesis by simp
next
  case (closed n ms)
  with assms show ?thesis by simp
next
  case (total n ms ps tot)
  with assms show ?thesis by simp
next
  case (appended n ms ps tot)
  note c = add_parallel_layer_loop_complete [OF appended(3)]
  have "\<not> fle (r_value p) (Finite 0)" if "p \<in> set ps" for p
  proof -
    from that c(1) obtain i where i: "i < n" "ps ! i = p"
      by (auto simp: in_set_conv_nth)
    with c(3) obtain w area_left where
      "on_ok float_of area_left (i = n - 1) w = Inr (r_value p, area_percent p, material p)"
      by blast
    then show ?thesis
      by (auto simp: on_ok_Inr_iff dest: materials_r_values_guard)
  qed
  then have "guarded (Parallel ps)" by simp
  with assms appended(5) show ?thesis by simp
qed

lemma delete_last_layer_guarded:
  assumes "\<forall>l \<in> set layers. guarded l"
  shows "\<forall>l \<in> set (new_layers (delete_last_layer layers)). guarded l"
  using assms by (auto simp: delete_last_layer_def dest: in_set_butlastD)

lemma confirm_delete_layer_guarded:
  assumes "\<forall>l \<in> set layers. guarded l"
  shows "\<forall>l \<in> set (new_layers (confirm_delete_layer index response layers)). guarded l"
  using assms
  by (auto simp: confirm_delete_layer_def Let_def dest: in_set_takeD in_set_dropD)

lemma reachable_guarded:
  assumes "reachable float_of int_of layers"
  shows "\<forall>l \<in> set layers. guarded l"
  using assms
proof (induction rule: reachable.induct)
  case start
  show ?case by simp
next
  case (series layers entry_r_value combo_material)
  then show ?case by (intro add_series_layer_guarded)
next
  case (parallel layers entry_num_paths dialogs)
  then show ?case by (intro add_parallel_layer_guarded)
next
  case (delete_last layers)
  then show ?case by (intro delete_last_layer_guarded)
next
  case (confirm_delete layers index response)
  then show ?case by (intro confirm_delete_layer_guarded)
qed

lemma zero_or_negative_r_value_rejected:
  "(strip entry_r_value \<noteq> [] \<and> float_of (strip entry_r_value) = Some val
      \<and> fle val (Finite 0)
    \<longrightarrow> add_series_layer float_of entry_r_value combo_material layers
        = \<lparr>shown = [Please_enter_a_positive_numeric_R_value], raised = None,
           new_layers = layers, redrawn = False\<rparr>)
   \<and> (strip (ent_r w) \<noteq> [] \<and> float_of (strip (ent_r w)) = Some rv \<and> fle rv (Finite 0)
    \<longrightarrow> on_ok float_of area_left last_path w = Inl Please_enter_a_positive_numeric_R_value)"
  by (simp add: add_series_layer_def Let_def on_ok_r_value_rejected_iff)

text \<open>
  C7 fails on the program. The claim has every stored \<open>rValue\<close> of every reachable layer
  list strictly positive. The guard of \<^verbatim>\<open>add_series_layer\<close> and of \<^verbatim>\<open>on_ok\<close> is
  \<^verbatim>\<open>val <= 0\<close>, which is false of the float \<^verbatim>\<open>nan\<close>: with "nan" typed for the R-value,
  \<^verbatim>\<open>add_series_layer\<close> stores a series layer whose R-value is \<^verbatim>\<open>nan\<close>, so that this list is
  reachable, and \<^verbatim>\<open>on_ok\<close> hands back a path with that R-value, which
  \<^verbatim>\<open>add_parallel_layer\<close> commits. \<^verbatim>\<open>nan\<close> is not above zero.
\<close>

theorem nan_r_value_stored:
  "float_of_decimal (strip ''nan'') = Some NaN
   \<and> \<not> fgt NaN (Finite 0)
   \<and> add_series_layer float_of_decimal ''nan'' ''None'' []
      = \<lparr>shown = [], raised = None, new_layers = [Series NaN ''Custom R-value''],
         redrawn = True\<rparr>
   \<and> reachable float_of_decimal int_of_decimal [Series NaN ''Custom R-value'']
   \<and> on_ok float_of_decimal (fsub (Finite 100) (Finite 0)) True
        \<lparr>ent_r = ''nan'', combo_r = ''None'', ent_a = ''100''\<rparr>
      = Inr (NaN, Finite 100, ''Custom R-value'')
   \<and> add_parallel_layer float_of_decimal int_of_decimal ''1''
        (\<lambda>i. [\<lparr>ent_r = ''nan'', combo_r = ''None'', ent_a = ''100''\<rparr>]) []
      = \<lparr>shown = [], raised = None,
         new_layers = [Parallel [\<lparr>r_value = NaN, area_percent = Finite 100,
                                   material = ''Custom R-value''\<rparr>]],
         redrawn = True\<rparr>"
proof -
  have 1: "add_series_layer float_of_decimal ''nan'' ''None'' []
      = \<lparr>shown = [], raised = None, new_layers = [Series NaN ''Custom R-value''],
         redrawn = True\<rparr>"
    by (simp add: run_simps)
  have 2: "reachable float_of_decimal int_of_decimal [Series NaN ''Custom R-value'']"
    using reachable.series [OF reachable.start, where float_of = float_of_decimal
        and int_of = int_of_decimal and entry_r_value = "''nan''"
        and combo_material = "''None''"]
    unfolding 1 by simp
  have 3: "float_of_decimal (strip ''nan'') = Some NaN \<and> \<not> fgt NaN (Finite 0)"
    by (simp add: run_simps)
  have 4: "on_ok float_of_decimal (fsub (Finite 100) (Finite 0)) True
        \<lparr>ent_r = ''nan'', combo_r = ''None'', ent_a = ''100''\<rparr>
      = Inr (NaN, Finite 100, ''Custom R-value'')"
    by (simp add: run_simps)
  have 5: "add_parallel_layer float_of_decimal int_of_decimal ''1''
        (\<lambda>i. [\<lparr>ent_r = ''nan'', combo_r = ''None'', ent_a = ''100''\<rparr>]) []
      = \<lparr>shown = [], raised = None,
         new_layers = [Parallel [\<lparr>r_value = NaN, area_percent = Finite 100,
                                   material = ''Custom R-value''\<rparr>]],
         redrawn = True\<rparr>"
    by (simp add: run_simps)
  from 1 2 3 4 5 show ?thesis by blast
qed

end
